theory Spec2Isabelle
  imports Complex_Main
begin

section \<open>Python values\<close>

text \<open>
  The adapter of \<^verbatim>\<open>src/utu/tools/chemcrow_toolkit.py\<close> only moves Python values around:
  configuration values, credentials, tool objects and tool results. A value is \<open>None\<close>, a
  bool, an int, a float (kept as the real number its literal denotes; floats are passed on
  and tested for truth, never computed with), a str, or an object of an external class,
  identified by the class name and the arguments its constructor was called with
  (\<open>None\<close> marks a positional argument, \<open>Some k\<close> the keyword \<open>k\<close>).
\<close>

datatype pyval =
    PNone
  | PBool bool
  | PInt int
  | PFloat real
  | PStr string
  | PObj string "(string option \<times> pyval) list"

type_synonym args = "(string option \<times> pyval) list"

text \<open>Python's truth value, as \<open>or\<close> and \<open>if\<close> test it.\<close>

fun truthy :: "pyval \<Rightarrow> bool" where
  "truthy PNone = False"
| "truthy (PBool b) = b"
| "truthy (PInt i) = (i \<noteq> 0)"
| "truthy (PFloat x) = (x \<noteq> 0)"
| "truthy (PStr s) = (s \<noteq> [])"
| "truthy (PObj c as) = True"

text \<open>\<open>a or b\<close>: the first operand when it is true, the second otherwise.\<close>

definition py_or :: "pyval \<Rightarrow> pyval \<Rightarrow> pyval" where
  "py_or a b = (if truthy a then a else b)"

text \<open>\<open>isinstance(v, str)\<close>.\<close>

fun is_str :: "pyval \<Rightarrow> bool" where
  "is_str (PStr s) = True"
| "is_str v = False"

text \<open>\<open>d.get(k)\<close> and \<open>d.get(k, default)\<close> on a dict.\<close>

definition dict_get :: "(string \<rightharpoonup> pyval) \<Rightarrow> string \<Rightarrow> pyval" where
  "dict_get d k = (case d k of None \<Rightarrow> PNone | Some v \<Rightarrow> v)"

definition dict_get_default :: "(string \<rightharpoonup> pyval) \<Rightarrow> string \<Rightarrow> pyval \<Rightarrow> pyval" where
  "dict_get_default d k dflt = (case d k of None \<Rightarrow> dflt | Some v \<Rightarrow> v)"

text \<open>\<open>os.getenv(name)\<close>: the variable's string, or \<open>None\<close> when it is not set.\<close>

definition getenv :: "(string \<rightharpoonup> string) \<Rightarrow> string \<Rightarrow> pyval" where
  "getenv environ name = (case environ name of None \<Rightarrow> PNone | Some s \<Rightarrow> PStr s)"

section \<open>Errors and the external libraries\<close>

text \<open>
  An exception is a value. \<open>ImportError\<close> is what the import of \<^verbatim>\<open>chemcrow.tools\<close> inside
  the constructor raises when the library is missing, \<open>AttributeError\<close> what a call of
  \<^verbatim>\<open>_run\<close> on a value without that method (such as \<open>None\<close>) raises, and \<open>Raised\<close> any
  exception of an external class, by its description.
\<close>

datatype error = ImportError string | AttributeError | Raised string

text \<open>
  The external collaborators are parameters of the model: whether the import of the
  chemistry library succeeds, whether a constructor call of an external class returns
  (\<open>None\<close>) or raises, what \<^verbatim>\<open>_run\<close> of a tool object returns or raises on a string, and
  how \<open>str\<close> renders a float or an object. The record stands for the libraries together
  with the state of the outside world during the calls.
\<close>

record library =
  lib_import :: "error option"
  lib_ctor :: "string \<Rightarrow> args \<Rightarrow> error option"
  lib_run :: "pyval \<Rightarrow> string \<Rightarrow> error + pyval"
  lib_str :: "pyval \<Rightarrow> string"

definition bind_res :: "error + 'a \<Rightarrow> ('a \<Rightarrow> error + 'b) \<Rightarrow> error + 'b" where
  "bind_res m f = (case m of Inl e \<Rightarrow> Inl e | Inr x \<Rightarrow> f x)"

text \<open>A constructor call \<open>Cls(args)\<close>: it raises, or it returns the new object.\<close>

definition new :: "library \<Rightarrow> string \<Rightarrow> args \<Rightarrow> error + pyval" where
  "new lib cls as = (case lib_ctor lib cls as of Some e \<Rightarrow> Inl e | None \<Rightarrow> Inr (PObj cls as))"

text \<open>The import statement inside the constructor.\<close>

definition import_tools :: "library \<Rightarrow> error + unit" where
  "import_tools lib = (case lib_import lib of Some e \<Rightarrow> Inl e | None \<Rightarrow> Inr ())"

text \<open>\<open>handle._run(x)\<close>: only an object has the method.\<close>

definition call_run :: "library \<Rightarrow> pyval \<Rightarrow> string \<Rightarrow> error + pyval" where
  "call_run lib h x = (case h of PObj c as \<Rightarrow> lib_run lib h x | _ \<Rightarrow> Inl AttributeError)"

text \<open>\<open>str(v)\<close>: decimal digits for an int, the library's rendering for floats and objects.\<close>

fun str_nat :: "nat \<Rightarrow> string" where
  "str_nat n = (if n < 10 then [''0123456789'' ! n]
                else str_nat (n div 10) @ [''0123456789'' ! (n mod 10)])"

declare str_nat.simps [simp del]

definition py_str :: "library \<Rightarrow> pyval \<Rightarrow> string" where
  "py_str lib v = (case v of
       PNone \<Rightarrow> ''None''
     | PBool b \<Rightarrow> (if b then ''True'' else ''False'')
     | PInt i \<Rightarrow> (if i < 0 then ''-'' @ str_nat (nat (- i)) else str_nat (nat i))
     | PStr s \<Rightarrow> s
     | _ \<Rightarrow> lib_str lib v)"

section \<open>The toolkit object\<close>

text \<open>
  The attributes \<^verbatim>\<open>ChemcrowToolkit.__init__\<close> assigns. A tool attribute holds the tool
  object, or \<open>None\<close> (\<open>PNone\<close>) where the constructor assigns \<open>None\<close>.
\<close>

record toolkit =
  llm :: pyval
  api_keys :: "string \<rightharpoonup> pyval"
  query2cas_tool :: pyval
  query2smiles_tool :: pyval
  smiles2name_tool :: pyval
  mol_similarity_tool :: pyval
  smiles2weight_tool :: pyval
  func_groups_tool :: pyval
  patent_check_tool :: pyval
  explosive_check_tool :: pyval
  control_chem_check_tool :: pyval
  similar_control_chem_check_tool :: pyval
  safety_summary_tool :: pyval
  scholar_tool :: pyval
  molecule_price_tool :: pyval
  web_search_tool :: pyval
  rxn_predict_tool :: pyval
  rxn_retro_tool :: pyval

text \<open>
  \<^verbatim>\<open>__init__\<close>, statement by statement. \<open>config\<close> is the dict \<^verbatim>\<open>self.config.config\<close> that
  the base class (not part of the sources at hand) stores, \<open>environ\<close> the process
  environment. Any raising call ends the construction with its exception.
\<close>

definition init :: "library \<Rightarrow> (string \<rightharpoonup> pyval) \<Rightarrow> (string \<rightharpoonup> string) \<Rightarrow> error + toolkit" where
  "init lib config environ =
    (let openai_api_key = py_or (dict_get config ''openai_api_key'') (getenv environ ''OPENAI_API_KEY'');
         llm_model = dict_get_default config ''llm_model'' (PStr ''gpt-3.5-turbo'');
         openai_api_base = dict_get_default config ''openai_api_base'' PNone
     in
     bind_res (new lib ''ChatOpenAI''
        [(Some ''model_name'', llm_model),
         (Some ''openai_api_key'', openai_api_key),
         (Some ''openai_api_base'', openai_api_base),
         (Some ''temperature'', dict_get_default config ''temperature'' (PFloat (1 / 10)))]) (\<lambda>the_llm.
     let keys = [
         ''OPENAI_API_KEY'' \<mapsto> openai_api_key,
         ''SERP_API_KEY'' \<mapsto>
            py_or (dict_get config ''serp_api_key'') (getenv environ ''SERP_API_KEY''),
         ''CHEMSPACE_API_KEY'' \<mapsto>
            py_or (dict_get config ''chemspace_api_key'') (getenv environ ''CHEMSPACE_API_KEY''),
         ''RXN4CHEM_API_KEY'' \<mapsto>
            py_or (dict_get config ''rxn4chem_api_key'') (getenv environ ''RXN4CHEM_API_KEY''),
         ''SEMANTIC_SCHOLAR_API_KEY'' \<mapsto>
            py_or (dict_get config ''semantic_scholar_api_key'')
                  (getenv environ ''SEMANTIC_SCHOLAR_API_KEY'')]
     in
     bind_res (import_tools lib) (\<lambda>_.
     bind_res (new lib ''Query2CAS'' []) (\<lambda>q2cas.
     bind_res (new lib ''Query2SMILES'' [(None, dict_get keys ''CHEMSPACE_API_KEY'')]) (\<lambda>q2smiles.
     bind_res (new lib ''SMILES2Name'' []) (\<lambda>s2name.
     bind_res (new lib ''MolSimilarity'' []) (\<lambda>molsim.
     bind_res (new lib ''SMILES2Weight'' []) (\<lambda>s2weight.
     bind_res (new lib ''FuncGroups'' []) (\<lambda>funcgroups.
     bind_res (new lib ''PatentCheck'' []) (\<lambda>patent.
     bind_res (new lib ''ExplosiveCheck'' []) (\<lambda>explosive.
     bind_res (new lib ''ControlChemCheck'' []) (\<lambda>control.
     bind_res (new lib ''SimilarControlChemCheck'' []) (\<lambda>similar_control.
     bind_res (new lib ''SafetySummary'' [(Some ''llm'', the_llm)]) (\<lambda>safety.
     bind_res (new lib ''Scholar2ResultLLM''
        [(Some ''llm'', the_llm),
         (Some ''openai_api_key'', dict_get keys ''OPENAI_API_KEY''),
         (Some ''semantic_scholar_api_key'', dict_get keys ''SEMANTIC_SCHOLAR_API_KEY'')]) (\<lambda>scholar.
     bind_res (if truthy (dict_get keys ''CHEMSPACE_API_KEY'')
               then new lib ''GetMoleculePrice'' [(None, dict_get keys ''CHEMSPACE_API_KEY'')]
               else Inr PNone) (\<lambda>price.
     bind_res (if truthy (dict_get keys ''SERP_API_KEY'')
               then new lib ''WebSearch'' [(None, dict_get keys ''SERP_API_KEY'')]
               else Inr PNone) (\<lambda>web.
     let local_rxn = dict_get_default config ''local_rxn'' (PBool False) in
     bind_res (if truthy local_rxn
               then bind_res (new lib ''RXNPredictLocal'' []) (\<lambda>p.
                    bind_res (new lib ''RXNRetrosynthesisLocal'' []) (\<lambda>r. Inr (p, r)))
               else if truthy (dict_get keys ''RXN4CHEM_API_KEY'')
               then bind_res (new lib ''RXNPredict'' [(None, dict_get keys ''RXN4CHEM_API_KEY'')]) (\<lambda>p.
                    bind_res (new lib ''RXNRetrosynthesis''
                       [(None, dict_get keys ''RXN4CHEM_API_KEY''),
                        (None, dict_get keys ''OPENAI_API_KEY'')]) (\<lambda>r. Inr (p, r)))
               else Inr (PNone, PNone)) (\<lambda>rxn.
     Inr \<lparr> llm = the_llm,
           api_keys = keys,
           query2cas_tool = q2cas,
           query2smiles_tool = q2smiles,
           smiles2name_tool = s2name,
           mol_similarity_tool = molsim,
           smiles2weight_tool = s2weight,
           func_groups_tool = funcgroups,
           patent_check_tool = patent,
           explosive_check_tool = explosive,
           control_chem_check_tool = control,
           similar_control_chem_check_tool = similar_control,
           safety_summary_tool = safety,
           scholar_tool = scholar,
           molecule_price_tool = price,
           web_search_tool = web,
           rxn_predict_tool = fst rxn,
           rxn_retro_tool = snd rxn \<rparr>))))))))))))))))))"

section \<open>The tool methods\<close>

text \<open>
  Each method takes the strings its signature declares and returns what the Python method
  returns, or the exception it raises.
\<close>

definition query_molecule_cas :: "library \<Rightarrow> toolkit \<Rightarrow> string \<Rightarrow> error + pyval" where
  "query_molecule_cas lib self molecule_query = call_run lib (query2cas_tool self) molecule_query"

definition convert_name_to_smiles :: "library \<Rightarrow> toolkit \<Rightarrow> string \<Rightarrow> error + pyval" where
  "convert_name_to_smiles lib self molecule_name = call_run lib (query2smiles_tool self) molecule_name"

definition convert_smiles_to_name :: "library \<Rightarrow> toolkit \<Rightarrow> string \<Rightarrow> error + pyval" where
  "convert_smiles_to_name lib self smiles = call_run lib (smiles2name_tool self) smiles"

definition get_molecular_weight :: "library \<Rightarrow> toolkit \<Rightarrow> string \<Rightarrow> error + pyval" where
  "get_molecular_weight lib self smiles =
     bind_res (call_run lib (smiles2weight_tool self) smiles) (\<lambda>result.
     Inr (if \<not> is_str result then PStr (py_str lib result) else result))"

definition get_functional_groups :: "library \<Rightarrow> toolkit \<Rightarrow> string \<Rightarrow> error + pyval" where
  "get_functional_groups lib self smiles = call_run lib (func_groups_tool self) smiles"

definition check_molecule_similarity :: "library \<Rightarrow> toolkit \<Rightarrow> string \<Rightarrow> string \<Rightarrow> error + pyval" where
  "check_molecule_similarity lib self smiles1 smiles2 =
     call_run lib (mol_similarity_tool self) (smiles1 @ '' '' @ smiles2)"

definition check_patent :: "library \<Rightarrow> toolkit \<Rightarrow> string \<Rightarrow> error + pyval" where
  "check_patent lib self molecule_smiles = call_run lib (patent_check_tool self) molecule_smiles"

definition check_explosive :: "library \<Rightarrow> toolkit \<Rightarrow> string \<Rightarrow> error + pyval" where
  "check_explosive lib self molecule_smiles = call_run lib (explosive_check_tool self) molecule_smiles"

definition check_controlled_chemical :: "library \<Rightarrow> toolkit \<Rightarrow> string \<Rightarrow> error + pyval" where
  "check_controlled_chemical lib self molecule_smiles =
     call_run lib (control_chem_check_tool self) molecule_smiles"

definition check_similar_controlled_chemicals :: "library \<Rightarrow> toolkit \<Rightarrow> string \<Rightarrow> error + pyval" where
  "check_similar_controlled_chemicals lib self molecule_smiles =
     call_run lib (similar_control_chem_check_tool self) molecule_smiles"

definition get_safety_summary :: "library \<Rightarrow> toolkit \<Rightarrow> string \<Rightarrow> error + pyval" where
  "get_safety_summary lib self molecule_query = call_run lib (safety_summary_tool self) molecule_query"

definition search_scholarly_literature :: "library \<Rightarrow> toolkit \<Rightarrow> string \<Rightarrow> error + pyval" where
  "search_scholarly_literature lib self query = call_run lib (scholar_tool self) query"

definition web_search_chemical :: "library \<Rightarrow> toolkit \<Rightarrow> string \<Rightarrow> error + pyval" where
  "web_search_chemical lib self query =
     (if web_search_tool self = PNone
      then Inr (PStr ''Web search tool not available. Set SERP_API_KEY environment variable.'')
      else call_run lib (web_search_tool self) query)"

definition get_molecule_price :: "library \<Rightarrow> toolkit \<Rightarrow> string \<Rightarrow> error + pyval" where
  "get_molecule_price lib self molecule_smiles =
     (if molecule_price_tool self = PNone
      then Inr (PStr ''Molecule price lookup not available. Set CHEMSPACE_API_KEY environment variable.'')
      else call_run lib (molecule_price_tool self) molecule_smiles)"

definition predict_reaction :: "library \<Rightarrow> toolkit \<Rightarrow> string \<Rightarrow> error + pyval" where
  "predict_reaction lib self reactants_smiles =
     (if rxn_predict_tool self = PNone
      then Inr (PStr (''Reaction prediction tool not available. '' @
                      ''Set RXN4CHEM_API_KEY environment variable or enable local_rxn.''))
      else call_run lib (rxn_predict_tool self) reactants_smiles)"

definition retrosynthesis_planning :: "library \<Rightarrow> toolkit \<Rightarrow> string \<Rightarrow> error + pyval" where
  "retrosynthesis_planning lib self target_smiles =
     (if rxn_retro_tool self = PNone
      then Inr (PStr (''Retrosynthesis tool not available. '' @
                      ''Set RXN4CHEM_API_KEY environment variable or enable local_rxn.''))
      else call_run lib (rxn_retro_tool self) target_smiles)"

section \<open>Names used in the statements\<close>

text \<open>
  The credential the constructor resolves for a configuration key and an environment
  variable: the expression \<^verbatim>\<open>config.get(key) or os.getenv(NAME)\<close> of the source.
\<close>

abbreviation credential :: "(string \<rightharpoonup> pyval) \<Rightarrow> (string \<rightharpoonup> string) \<Rightarrow> string \<Rightarrow> string \<Rightarrow> pyval" where
  "credential config environ key name \<equiv> py_or (dict_get config key) (getenv environ name)"

abbreviation local_rxn_of :: "(string \<rightharpoonup> pyval) \<Rightarrow> pyval" where
  "local_rxn_of config \<equiv> dict_get_default config ''local_rxn'' (PBool False)"

abbreviation unavailable_price :: pyval where
  "unavailable_price \<equiv>
     PStr ''Molecule price lookup not available. Set CHEMSPACE_API_KEY environment variable.''"

abbreviation unavailable_web :: pyval where
  "unavailable_web \<equiv> PStr ''Web search tool not available. Set SERP_API_KEY environment variable.''"

abbreviation unavailable_predict :: pyval where
  "unavailable_predict \<equiv>
     PStr ''Reaction prediction tool not available. Set RXN4CHEM_API_KEY environment variable or enable local_rxn.''"

abbreviation unavailable_retro :: pyval where
  "unavailable_retro \<equiv>
     PStr ''Retrosynthesis tool not available. Set RXN4CHEM_API_KEY environment variable or enable local_rxn.''"

abbreviation llm_args :: "(string \<rightharpoonup> pyval) \<Rightarrow> (string \<rightharpoonup> string) \<Rightarrow> args" where
  "llm_args config environ \<equiv>
     [(Some ''model_name'', dict_get_default config ''llm_model'' (PStr ''gpt-3.5-turbo'')),
      (Some ''openai_api_key'', credential config environ ''openai_api_key'' ''OPENAI_API_KEY''),
      (Some ''openai_api_base'', dict_get_default config ''openai_api_base'' PNone),
      (Some ''temperature'', dict_get_default config ''temperature'' (PFloat (1 / 10)))]"

section \<open>Stand-in libraries for concrete runs\<close>

text \<open>
  \<open>echo_lib\<close>: the import and every constructor succeed, and every tool answers with its
  class name followed by the input.
\<close>

definition echo_lib :: library where
  "echo_lib = \<lparr> lib_import = None,
                lib_ctor = (\<lambda>cls as. None),
                lib_run = (\<lambda>h x. case h of PObj c as \<Rightarrow> Inr (PStr (c @ '': '' @ x))
                                      | _ \<Rightarrow> Inl AttributeError),
                lib_str = (\<lambda>v. ''<object>'') \<rparr>"

text \<open>
  \<open>float_lib\<close>: as \<open>echo_lib\<close>, but every tool answers with the float 46.069, which
  \<open>str\<close> renders as \<open>46.069\<close>.
\<close>

definition float_lib :: library where
  "float_lib = \<lparr> lib_import = None,
                 lib_ctor = (\<lambda>cls as. None),
                 lib_run = (\<lambda>h x. Inr (PFloat (46069 / 1000))),
                 lib_str = (\<lambda>v. ''46.069'') \<rparr>"

text \<open>\<open>no_chemcrow_lib\<close>: the LLM client can be built, the chemistry library is not installed.\<close>

definition no_chemcrow_lib :: library where
  "no_chemcrow_lib = \<lparr> lib_import = Some (ImportError ''No module named chemcrow''),
                       lib_ctor = (\<lambda>cls as. None),
                       lib_run = (\<lambda>h x. Inr (PStr x)),
                       lib_str = (\<lambda>v. ''<object>'') \<rparr>"

text \<open>\<open>no_llm_lib\<close>: the constructor of the LLM client raises, everything else succeeds.\<close>

definition no_llm_lib :: library where
  "no_llm_lib = \<lparr> lib_import = None,
                  lib_ctor = (\<lambda>cls as. if cls = ''ChatOpenAI'' then Some (Raised ''invalid base URL'')
                                        else None),
                  lib_run = (\<lambda>h x. Inr (PStr x)),
                  lib_str = (\<lambda>v. ''<object>'') \<rparr>"




section \<open>What a finished construction has built\<close>

lemma bind_res_Inr: "bind_res m f = Inr y \<longleftrightarrow> (\<exists>x. m = Inr x \<and> f x = Inr y)"
  by (cases m) (simp_all add: bind_res_def)

lemma new_Inr: "new lib cls as = Inr v \<longleftrightarrow> lib_ctor lib cls as = None \<and> v = PObj cls as"
  by (cases "lib_ctor lib cls as") (auto simp: new_def)

lemma import_tools_Inr: "import_tools lib = Inr u \<longleftrightarrow> lib_import lib = None"
  by (cases "lib_import lib") (simp_all add: import_tools_def)

lemma if_new_Inr:
  "((if c then new lib cls as else Inr PNone) = Inr v) \<longleftrightarrow>
     (c \<longrightarrow> lib_ctor lib cls as = None) \<and> v = (if c then PObj cls as else PNone)"
  by (auto simp: new_Inr)

lemma rxn_Inr:
  "((if l then bind_res (new lib c1 a1) (\<lambda>p. bind_res (new lib c2 a2) (\<lambda>r. Inr (p, r)))
     else if k then bind_res (new lib c3 a3) (\<lambda>p. bind_res (new lib c4 a4) (\<lambda>r. Inr (p, r)))
     else Inr (PNone, PNone)) = Inr v) \<longleftrightarrow>
   (l \<longrightarrow> lib_ctor lib c1 a1 = None \<and> lib_ctor lib c2 a2 = None) \<and>
   (\<not> l \<and> k \<longrightarrow> lib_ctor lib c3 a3 = None \<and> lib_ctor lib c4 a4 = None) \<and>
   v = (if l then PObj c1 a1 else if k then PObj c3 a3 else PNone,
        if l then PObj c2 a2 else if k then PObj c4 a4 else PNone)"
  by (auto simp: bind_res_Inr new_Inr)

lemma keys_get:
  fixes a b c d e :: pyval
  defines "keys \<equiv> [''OPENAI_API_KEY'' \<mapsto> a, ''SERP_API_KEY'' \<mapsto> b, ''CHEMSPACE_API_KEY'' \<mapsto> c,
      ''RXN4CHEM_API_KEY'' \<mapsto> d, ''SEMANTIC_SCHOLAR_API_KEY'' \<mapsto> e]"
  shows "dict_get keys ''OPENAI_API_KEY'' = a"
    and "dict_get keys ''SERP_API_KEY'' = b"
    and "dict_get keys ''CHEMSPACE_API_KEY'' = c"
    and "dict_get keys ''RXN4CHEM_API_KEY'' = d"
    and "dict_get keys ''SEMANTIC_SCHOLAR_API_KEY'' = e"
  by (simp_all add: keys_def dict_get_def)

text \<open>The object a construction returns, attribute by attribute.\<close>

lemma init_InrD:
  assumes "init lib config environ = Inr self"
  shows "self = \<lparr>
    llm = PObj ''ChatOpenAI'' (llm_args config environ),
    api_keys = [
      ''OPENAI_API_KEY'' \<mapsto> credential config environ ''openai_api_key'' ''OPENAI_API_KEY'',
      ''SERP_API_KEY'' \<mapsto> credential config environ ''serp_api_key'' ''SERP_API_KEY'',
      ''CHEMSPACE_API_KEY'' \<mapsto> credential config environ ''chemspace_api_key'' ''CHEMSPACE_API_KEY'',
      ''RXN4CHEM_API_KEY'' \<mapsto> credential config environ ''rxn4chem_api_key'' ''RXN4CHEM_API_KEY'',
      ''SEMANTIC_SCHOLAR_API_KEY'' \<mapsto>
         credential config environ ''semantic_scholar_api_key'' ''SEMANTIC_SCHOLAR_API_KEY''],
    query2cas_tool = PObj ''Query2CAS'' [],
    query2smiles_tool = PObj ''Query2SMILES''
      [(None, credential config environ ''chemspace_api_key'' ''CHEMSPACE_API_KEY'')],
    smiles2name_tool = PObj ''SMILES2Name'' [],
    mol_similarity_tool = PObj ''MolSimilarity'' [],
    smiles2weight_tool = PObj ''SMILES2Weight'' [],
    func_groups_tool = PObj ''FuncGroups'' [],
    patent_check_tool = PObj ''PatentCheck'' [],
    explosive_check_tool = PObj ''ExplosiveCheck'' [],
    control_chem_check_tool = PObj ''ControlChemCheck'' [],
    similar_control_chem_check_tool = PObj ''SimilarControlChemCheck'' [],
    safety_summary_tool = PObj ''SafetySummary''
      [(Some ''llm'', PObj ''ChatOpenAI'' (llm_args config environ))],
    scholar_tool = PObj ''Scholar2ResultLLM''
      [(Some ''llm'', PObj ''ChatOpenAI'' (llm_args config environ)),
       (Some ''openai_api_key'', credential config environ ''openai_api_key'' ''OPENAI_API_KEY''),
       (Some ''semantic_scholar_api_key'',
        credential config environ ''semantic_scholar_api_key'' ''SEMANTIC_SCHOLAR_API_KEY'')],
    molecule_price_tool =
      (if truthy (credential config environ ''chemspace_api_key'' ''CHEMSPACE_API_KEY'')
       then PObj ''GetMoleculePrice''
              [(None, credential config environ ''chemspace_api_key'' ''CHEMSPACE_API_KEY'')]
       else PNone),
    web_search_tool =
      (if truthy (credential config environ ''serp_api_key'' ''SERP_API_KEY'')
       then PObj ''WebSearch'' [(None, credential config environ ''serp_api_key'' ''SERP_API_KEY'')]
       else PNone),
    rxn_predict_tool =
      (if truthy (local_rxn_of config) then PObj ''RXNPredictLocal'' []
       else if truthy (credential config environ ''rxn4chem_api_key'' ''RXN4CHEM_API_KEY'')
       then PObj ''RXNPredict''
              [(None, credential config environ ''rxn4chem_api_key'' ''RXN4CHEM_API_KEY'')]
       else PNone),
    rxn_retro_tool =
      (if truthy (local_rxn_of config) then PObj ''RXNRetrosynthesisLocal'' []
       else if truthy (credential config environ ''rxn4chem_api_key'' ''RXN4CHEM_API_KEY'')
       then PObj ''RXNRetrosynthesis''
              [(None, credential config environ ''rxn4chem_api_key'' ''RXN4CHEM_API_KEY''),
               (None, credential config environ ''openai_api_key'' ''OPENAI_API_KEY'')]
       else PNone) \<rparr>"
proof -
  note k = keys_get [of "credential config environ ''openai_api_key'' ''OPENAI_API_KEY''"
      "credential config environ ''serp_api_key'' ''SERP_API_KEY''"
      "credential config environ ''chemspace_api_key'' ''CHEMSPACE_API_KEY''"
      "credential config environ ''rxn4chem_api_key'' ''RXN4CHEM_API_KEY''"
      "credential config environ ''semantic_scholar_api_key'' ''SEMANTIC_SCHOLAR_API_KEY''"]
  from assms show ?thesis
    unfolding init_def Let_def k
    by (clarsimp simp: bind_res_Inr new_Inr import_tools_Inr if_new_Inr rxn_Inr
          split del: if_split)
qed

text \<open>A construction returns when no call it makes raises.\<close>

lemma init_returns:
  assumes "lib_import lib = None" and "\<And>cls as. lib_ctor lib cls as = None"
  shows "init lib config environ = Inr (projr (init lib config environ))"
proof -
  have "\<exists>self. init lib config environ = Inr self"
    unfolding init_def Let_def
    by (simp add: bind_res_Inr new_Inr import_tools_Inr if_new_Inr rxn_Inr assms
          split del: if_split)
  then show ?thesis by auto
qed

lemma echo_init: "init echo_lib config environ = Inr (projr (init echo_lib config environ))"
  by (rule init_returns) (simp_all add: echo_lib_def)

lemma float_init: "init float_lib config environ = Inr (projr (init float_lib config environ))"
  by (rule init_returns) (simp_all add: float_lib_def)


text \<open>The attributes the statements below read.\<close>

lemma init_price:
  assumes "init lib config environ = Inr self"
  shows "molecule_price_tool self =
      (if truthy (credential config environ ''chemspace_api_key'' ''CHEMSPACE_API_KEY'')
       then PObj ''GetMoleculePrice''
              [(None, credential config environ ''chemspace_api_key'' ''CHEMSPACE_API_KEY'')]
       else PNone)"
  by (subst init_InrD [OF assms]) (simp split del: if_split)

lemma init_web:
  assumes "init lib config environ = Inr self"
  shows "web_search_tool self =
      (if truthy (credential config environ ''serp_api_key'' ''SERP_API_KEY'')
       then PObj ''WebSearch'' [(None, credential config environ ''serp_api_key'' ''SERP_API_KEY'')]
       else PNone)"
  by (subst init_InrD [OF assms]) (simp split del: if_split)

lemma init_predict:
  assumes "init lib config environ = Inr self"
  shows "rxn_predict_tool self =
      (if truthy (local_rxn_of config) then PObj ''RXNPredictLocal'' []
       else if truthy (credential config environ ''rxn4chem_api_key'' ''RXN4CHEM_API_KEY'')
       then PObj ''RXNPredict''
              [(None, credential config environ ''rxn4chem_api_key'' ''RXN4CHEM_API_KEY'')]
       else PNone)"
  by (subst init_InrD [OF assms]) (simp split del: if_split)

lemma init_retro:
  assumes "init lib config environ = Inr self"
  shows "rxn_retro_tool self =
      (if truthy (local_rxn_of config) then PObj ''RXNRetrosynthesisLocal'' []
       else if truthy (credential config environ ''rxn4chem_api_key'' ''RXN4CHEM_API_KEY'')
       then PObj ''RXNRetrosynthesis''
              [(None, credential config environ ''rxn4chem_api_key'' ''RXN4CHEM_API_KEY''),
               (None, credential config environ ''openai_api_key'' ''OPENAI_API_KEY'')]
       else PNone)"
  by (subst init_InrD [OF assms]) (simp split del: if_split)

lemma init_plain:
  assumes "init lib config environ = Inr self"
  shows "query2cas_tool self = PObj ''Query2CAS'' []"
    and "query2smiles_tool self = PObj ''Query2SMILES''
           [(None, credential config environ ''chemspace_api_key'' ''CHEMSPACE_API_KEY'')]"
    and "smiles2name_tool self = PObj ''SMILES2Name'' []"
    and "mol_similarity_tool self = PObj ''MolSimilarity'' []"
    and "smiles2weight_tool self = PObj ''SMILES2Weight'' []"
    and "func_groups_tool self = PObj ''FuncGroups'' []"
    and "patent_check_tool self = PObj ''PatentCheck'' []"
    and "explosive_check_tool self = PObj ''ExplosiveCheck'' []"
    and "control_chem_check_tool self = PObj ''ControlChemCheck'' []"
    and "similar_control_chem_check_tool self = PObj ''SimilarControlChemCheck'' []"
    and "safety_summary_tool self = PObj ''SafetySummary''
           [(Some ''llm'', PObj ''ChatOpenAI'' (llm_args config environ))]"
    and "scholar_tool self = PObj ''Scholar2ResultLLM''
           [(Some ''llm'', PObj ''ChatOpenAI'' (llm_args config environ)),
            (Some ''openai_api_key'', credential config environ ''openai_api_key'' ''OPENAI_API_KEY''),
            (Some ''semantic_scholar_api_key'',
             credential config environ ''semantic_scholar_api_key'' ''SEMANTIC_SCHOLAR_API_KEY'')]"
    and "llm self = PObj ''ChatOpenAI'' (llm_args config environ)"
  by (subst init_InrD [OF assms], simp split del: if_split)+


section \<open>Soft failure of the credential-gated capabilities\<close>

text \<open>
  Claim C1. For price lookup, web search, reaction prediction and retrosynthesis: when the
  adapter has been constructed and neither the configuration nor the environment supplies
  the capability's credential (the resolved credential is \<open>None\<close> or empty), and, for the
  two reaction capabilities, \<open>local_rxn\<close> is false, every call of the matching method
  returns the capability's fixed unavailable string; it does not raise.
\<close>

theorem gated_methods_unavailable:
  assumes "init lib config environ = Inr self"
  shows "(\<not> truthy (credential config environ ''chemspace_api_key'' ''CHEMSPACE_API_KEY'') \<longrightarrow>
            get_molecule_price lib self x = Inr unavailable_price) \<and>
         (\<not> truthy (credential config environ ''serp_api_key'' ''SERP_API_KEY'') \<longrightarrow>
            web_search_chemical lib self x = Inr unavailable_web) \<and>
         (\<not> truthy (credential config environ ''rxn4chem_api_key'' ''RXN4CHEM_API_KEY'') \<and>
          \<not> truthy (local_rxn_of config) \<longrightarrow>
            predict_reaction lib self x = Inr unavailable_predict \<and>
            retrosynthesis_planning lib self x = Inr unavailable_retro)"
proof (intro conjI impI)
  assume "\<not> truthy (credential config environ ''chemspace_api_key'' ''CHEMSPACE_API_KEY'')"
  then show "get_molecule_price lib self x = Inr unavailable_price"
    by (simp add: get_molecule_price_def init_price [OF assms])
next
  assume "\<not> truthy (credential config environ ''serp_api_key'' ''SERP_API_KEY'')"
  then show "web_search_chemical lib self x = Inr unavailable_web"
    by (simp add: web_search_chemical_def init_web [OF assms])
next
  assume a: "\<not> truthy (credential config environ ''rxn4chem_api_key'' ''RXN4CHEM_API_KEY'') \<and>
             \<not> truthy (local_rxn_of config)"
  then show "predict_reaction lib self x = Inr unavailable_predict"
    by (simp add: predict_reaction_def init_predict [OF assms])
  from a show "retrosynthesis_planning lib self x = Inr unavailable_retro"
    by (simp add: retrosynthesis_planning_def init_retro [OF assms])
qed

text \<open>
  A run: only \<open>OPENAI_API_KEY\<close> is set, the configuration is empty; all four methods answer
  with their unavailable string on \<open>CCO\<close>.
\<close>

theorem gated_methods_unavailable_witness:
  "\<not> isl (init echo_lib Map.empty [''OPENAI_API_KEY'' \<mapsto> ''sk-test'']) \<and>
   get_molecule_price echo_lib
     (projr (init echo_lib Map.empty [''OPENAI_API_KEY'' \<mapsto> ''sk-test''])) ''CCO'' =
     Inr unavailable_price \<and>
   web_search_chemical echo_lib
     (projr (init echo_lib Map.empty [''OPENAI_API_KEY'' \<mapsto> ''sk-test''])) ''CCO'' =
     Inr unavailable_web \<and>
   predict_reaction echo_lib
     (projr (init echo_lib Map.empty [''OPENAI_API_KEY'' \<mapsto> ''sk-test''])) ''CCO'' =
     Inr unavailable_predict \<and>
   retrosynthesis_planning echo_lib
     (projr (init echo_lib Map.empty [''OPENAI_API_KEY'' \<mapsto> ''sk-test''])) ''CCO'' =
     Inr unavailable_retro"
proof -
  let ?r = "init echo_lib Map.empty [''OPENAI_API_KEY'' \<mapsto> ''sk-test'']"
  have ok: "?r = Inr (projr ?r)" by (rule echo_init)
  have "\<not> isl ?r" by (subst ok) simp
  with gated_methods_unavailable [OF ok, of "''CCO''"] show ?thesis
    by (simp add: py_or_def dict_get_def dict_get_default_def getenv_def)
qed

section \<open>Local reaction prediction\<close>

text \<open>
  Claim C7. When the adapter has been constructed with \<open>local_rxn\<close> true and without a
  reaction-service credential, the reaction-prediction handle is the local predictor, and
  \<open>predict_reaction\<close> returns what the local predictor's run returns on the input (or
  raises what it raises) instead of the unavailable string.
\<close>

theorem predict_reaction_local:
  assumes "init lib config environ = Inr self"
    and "truthy (local_rxn_of config)"
    and "\<not> truthy (credential config environ ''rxn4chem_api_key'' ''RXN4CHEM_API_KEY'')"
  shows "rxn_predict_tool self = PObj ''RXNPredictLocal'' [] \<and>
         predict_reaction lib self x = lib_run lib (PObj ''RXNPredictLocal'' []) x"
  using assms(2)
  by (simp add: predict_reaction_def call_run_def init_predict [OF assms(1)])

theorem predict_reaction_local_witness:
  "\<not> isl (init echo_lib [''local_rxn'' \<mapsto> PBool True] Map.empty) \<and>
   truthy (local_rxn_of [''local_rxn'' \<mapsto> PBool True]) \<and>
   \<not> truthy (credential [''local_rxn'' \<mapsto> PBool True] Map.empty ''rxn4chem_api_key'' ''RXN4CHEM_API_KEY'') \<and>
   predict_reaction echo_lib (projr (init echo_lib [''local_rxn'' \<mapsto> PBool True] Map.empty)) ''CCO.Br'' =
     Inr (PStr ''RXNPredictLocal: CCO.Br'')"
proof -
  let ?c = "[''local_rxn'' \<mapsto> PBool True]"
  let ?r = "init echo_lib ?c Map.empty"
  have ok: "?r = Inr (projr ?r)" by (rule echo_init)
  have l: "truthy (local_rxn_of ?c)" by (simp add: dict_get_default_def)
  have k: "\<not> truthy (credential ?c Map.empty ''rxn4chem_api_key'' ''RXN4CHEM_API_KEY'')"
    by (simp add: py_or_def dict_get_def getenv_def)
  have "\<not> isl ?r" by (subst ok) simp
  with predict_reaction_local [OF ok l k, of "''CCO.Br''"] l k show ?thesis
    by (simp add: echo_lib_def)
qed

section \<open>The molecular weight is returned as a string\<close>

text \<open>
  Claim C8. For every SMILES string, whenever the underlying weight computation returns a
  value, \<open>get_molecular_weight\<close> returns a string: the value itself when it is a string,
  its \<open>str\<close> rendering when it is numeric or of any other type. Nothing but a string is
  ever returned.
\<close>

theorem get_molecular_weight_string:
  "(call_run lib (smiles2weight_tool self) smiles = Inr result \<longrightarrow>
      get_molecular_weight lib self smiles = Inr (PStr (py_str lib result))) \<and>
   (get_molecular_weight lib self smiles = Inr v \<longrightarrow> is_str v)"
proof (intro conjI impI)
  assume "call_run lib (smiles2weight_tool self) smiles = Inr result"
  then show "get_molecular_weight lib self smiles = Inr (PStr (py_str lib result))"
    by (cases result) (simp_all add: get_molecular_weight_def bind_res_def py_str_def)
next
  assume "get_molecular_weight lib self smiles = Inr v"
  then obtain r where "v = (if \<not> is_str r then PStr (py_str lib r) else r)"
    by (auto simp: get_molecular_weight_def bind_res_Inr)
  then show "is_str v" by (cases "is_str r") simp_all
qed

text \<open>A run: the weight tool answers with the float 46.069, the method with its rendering.\<close>

theorem get_molecular_weight_string_witness:
  "call_run float_lib (smiles2weight_tool (projr (init float_lib Map.empty Map.empty))) ''CCO'' =
     Inr (PFloat (46069 / 1000)) \<and>
   get_molecular_weight float_lib (projr (init float_lib Map.empty Map.empty)) ''CCO'' =
     Inr (PStr ''46.069'') \<and>
   is_str (PStr ''46.069'')"
proof -
  let ?self = "projr (init float_lib Map.empty Map.empty)"
  have w: "smiles2weight_tool ?self = PObj ''SMILES2Weight'' []"
    by (rule init_plain [OF float_init])
  have r: "call_run float_lib (smiles2weight_tool ?self) ''CCO'' = Inr (PFloat (46069 / 1000))"
    by (subst w) (simp add: call_run_def float_lib_def)
  have s: "py_str float_lib (PFloat (46069 / 1000)) = ''46.069''"
    by (simp add: py_str_def float_lib_def)
  from get_molecular_weight_string [of float_lib ?self "''CCO''" "PFloat (46069 / 1000)" "PStr ''46.069''"] r s
  show ?thesis by simp
qed

section \<open>Reaction prediction and retrosynthesis come and go together\<close>

text \<open>
  Claim C9. After construction, the reaction-prediction handle and the retrosynthesis
  handle are either both bound or both the absent marker \<open>None\<close>, whatever the
  configuration and the environment.
\<close>

theorem rxn_handles_coupled:
  assumes "init lib config environ = Inr self"
  shows "(rxn_predict_tool self = PNone) = (rxn_retro_tool self = PNone)"
  by (simp add: init_predict [OF assms] init_retro [OF assms])

text \<open>Two runs: no reaction credential (both absent), and a reaction credential (both bound).\<close>

theorem rxn_handles_coupled_witness:
  "\<not> isl (init echo_lib Map.empty Map.empty) \<and>
   rxn_predict_tool (projr (init echo_lib Map.empty Map.empty)) = PNone \<and>
   rxn_retro_tool (projr (init echo_lib Map.empty Map.empty)) = PNone \<and>
   \<not> isl (init echo_lib Map.empty [''RXN4CHEM_API_KEY'' \<mapsto> ''rxn-key'']) \<and>
   rxn_predict_tool (projr (init echo_lib Map.empty [''RXN4CHEM_API_KEY'' \<mapsto> ''rxn-key''])) \<noteq> PNone \<and>
   rxn_retro_tool (projr (init echo_lib Map.empty [''RXN4CHEM_API_KEY'' \<mapsto> ''rxn-key''])) \<noteq> PNone"
proof -
  let ?a = "init echo_lib Map.empty Map.empty"
  let ?b = "init echo_lib Map.empty [''RXN4CHEM_API_KEY'' \<mapsto> ''rxn-key'']"
  have oka: "?a = Inr (projr ?a)" and okb: "?b = Inr (projr ?b)" by (rule echo_init)+
  have ia: "\<not> isl ?a" by (subst oka) simp
  have ib: "\<not> isl ?b" by (subst okb) simp
  have pa: "rxn_predict_tool (projr ?a) = PNone"
    by (simp add: init_predict [OF oka] py_or_def dict_get_def dict_get_default_def getenv_def)
  have pb: "rxn_predict_tool (projr ?b) \<noteq> PNone"
    by (simp add: init_predict [OF okb] py_or_def dict_get_def dict_get_default_def getenv_def)
  from rxn_handles_coupled [OF oka] rxn_handles_coupled [OF okb] ia ib pa pb
  show ?thesis by simp
qed

section \<open>Scholarly search has no soft failure\<close>

text \<open>
  Claim C10. The scholarly-search handle is built unconditionally: after construction it
  is the \<open>Scholar2ResultLLM\<close> object that was given the LLM client, the OpenAI credential
  and the semantic-scholar credential as resolved, \<open>None\<close> included. The method
  \<open>search_scholarly_literature\<close> delegates every query to that object's run; it has no
  branch returning a fixed unavailable string.
\<close>

theorem scholar_always_delegates:
  assumes "init lib config environ = Inr self"
  shows "scholar_tool self = PObj ''Scholar2ResultLLM''
           [(Some ''llm'', llm self),
            (Some ''openai_api_key'', credential config environ ''openai_api_key'' ''OPENAI_API_KEY''),
            (Some ''semantic_scholar_api_key'',
             credential config environ ''semantic_scholar_api_key'' ''SEMANTIC_SCHOLAR_API_KEY'')] \<and>
         search_scholarly_literature lib self query = lib_run lib (scholar_tool self) query"
  by (simp add: search_scholarly_literature_def call_run_def init_plain [OF assms])

text \<open>A run without any semantic-scholar credential: the query reaches the tool.\<close>

theorem scholar_always_delegates_witness:
  "\<not> isl (init echo_lib Map.empty [''OPENAI_API_KEY'' \<mapsto> ''sk-test'']) \<and>
   credential Map.empty [''OPENAI_API_KEY'' \<mapsto> ''sk-test'']
     ''semantic_scholar_api_key'' ''SEMANTIC_SCHOLAR_API_KEY'' = PNone \<and>
   search_scholarly_literature echo_lib
     (projr (init echo_lib Map.empty [''OPENAI_API_KEY'' \<mapsto> ''sk-test''])) ''aspirin synthesis'' =
     Inr (PStr ''Scholar2ResultLLM: aspirin synthesis'')"
proof -
  let ?r = "init echo_lib Map.empty [''OPENAI_API_KEY'' \<mapsto> ''sk-test'']"
  have ok: "?r = Inr (projr ?r)" by (rule echo_init)
  have i: "\<not> isl ?r" by (subst ok) simp
  have c: "credential Map.empty [''OPENAI_API_KEY'' \<mapsto> ''sk-test'']
     ''semantic_scholar_api_key'' ''SEMANTIC_SCHOLAR_API_KEY'' = PNone"
    by (simp add: py_or_def dict_get_def getenv_def)
  from scholar_always_delegates [OF ok, of "''aspirin synthesis''"] i c show ?thesis
    by (simp add: echo_lib_def)
qed

section \<open>What gates a handle, and which methods check\<close>




section \<open>Remote retrosynthesis and the OpenAI credential\<close>




section \<open>Failures of the construction\<close>

lemma init_llm_raises:
  assumes "lib_ctor lib ''ChatOpenAI'' (llm_args config environ) = Some e"
  shows "init lib config environ = Inl e"
  unfolding init_def Let_def by (simp add: new_def bind_res_def assms)

lemma init_import_raises:
  assumes "lib_ctor lib ''ChatOpenAI'' (llm_args config environ) = None"
    and "lib_import lib = Some e"
  shows "init lib config environ = Inl e"
  unfolding init_def Let_def by (simp add: new_def bind_res_def import_tools_def assms)

lemma init_returns_tools:
  assumes "lib_ctor lib ''ChatOpenAI'' (llm_args config environ) = None"
    and "lib_import lib = None"
    and "\<forall>cls as. cls \<noteq> ''ChatOpenAI'' \<longrightarrow> lib_ctor lib cls as = None"
  shows "\<exists>self. init lib config environ = Inr self"
  unfolding init_def Let_def
  by (simp add: bind_res_Inr new_Inr import_tools_Inr if_new_Inr rxn_Inr assms
        split del: if_split)

text \<open>
  Claim C3 says that the construction fails when the LLM client cannot be built and that
  nothing else can make it fail. The constructor imports the chemistry library after it
  has built the LLM client: where the library is not installed, the LLM client is built
  and the construction raises the import's error.
\<close>

theorem init_only_llm_counterexample:
  "lib_ctor no_chemcrow_lib ''ChatOpenAI'' (llm_args Map.empty [''OPENAI_API_KEY'' \<mapsto> ''sk-test'']) = None \<and>
   init no_chemcrow_lib Map.empty [''OPENAI_API_KEY'' \<mapsto> ''sk-test''] =
     Inl (ImportError ''No module named chemcrow'')"
proof -
  have a: "lib_ctor no_chemcrow_lib ''ChatOpenAI''
             (llm_args Map.empty [''OPENAI_API_KEY'' \<mapsto> ''sk-test'']) = None"
    by (simp add: no_chemcrow_lib_def)
  have b: "lib_import no_chemcrow_lib = Some (ImportError ''No module named chemcrow'')"
    by (simp add: no_chemcrow_lib_def)
  from a init_import_raises [OF a b] show ?thesis by simp
qed

text \<open>
  Claim C3 as amended. The construction fails, with the client's own exception, when the
  LLM client cannot be built. When the client is built, the construction still fails, with
  the import's exception, if the import of the chemistry library raises. When the client is
  built, the import succeeds and no constructor of a chemistry tool raises, the
  construction succeeds.
\<close>

theorem init_failure_modes:
  "(lib_ctor lib ''ChatOpenAI'' (llm_args config environ) = Some e \<longrightarrow>
      init lib config environ = Inl e) \<and>
   (lib_ctor lib ''ChatOpenAI'' (llm_args config environ) = None \<and> lib_import lib = Some e \<longrightarrow>
      init lib config environ = Inl e) \<and>
   (lib_ctor lib ''ChatOpenAI'' (llm_args config environ) = None \<and> lib_import lib = None \<and>
    (\<forall>cls as. cls \<noteq> ''ChatOpenAI'' \<longrightarrow> lib_ctor lib cls as = None) \<longrightarrow>
      (\<exists>self. init lib config environ = Inr self))"
  using init_llm_raises [of lib config environ e] init_import_raises [of lib config environ e]
    init_returns_tools [of lib config environ]
  by blast

text \<open>
  Three runs: the LLM client raises on a bad base URL; the chemistry library is missing;
  everything is in place.
\<close>

theorem init_failure_modes_witness:
  "init no_llm_lib [''openai_api_base'' \<mapsto> PStr ''htp:/bad''] Map.empty = Inl (Raised ''invalid base URL'') \<and>
   init no_chemcrow_lib Map.empty Map.empty = Inl (ImportError ''No module named chemcrow'') \<and>
   \<not> isl (init echo_lib Map.empty [''OPENAI_API_KEY'' \<mapsto> ''sk-test''])"
proof -
  have a: "init no_llm_lib [''openai_api_base'' \<mapsto> PStr ''htp:/bad''] Map.empty =
             Inl (Raised ''invalid base URL'')"
    using init_failure_modes [of no_llm_lib "[''openai_api_base'' \<mapsto> PStr ''htp:/bad'']" Map.empty
        "Raised ''invalid base URL''"]
    by (simp add: no_llm_lib_def)
  have b: "init no_chemcrow_lib Map.empty Map.empty = Inl (ImportError ''No module named chemcrow'')"
    using init_failure_modes [of no_chemcrow_lib Map.empty Map.empty
        "ImportError ''No module named chemcrow''"]
    by (simp add: no_chemcrow_lib_def)
  have "\<exists>self. init echo_lib Map.empty [''OPENAI_API_KEY'' \<mapsto> ''sk-test''] = Inr self"
    using init_failure_modes [of echo_lib Map.empty "[''OPENAI_API_KEY'' \<mapsto> ''sk-test'']" AttributeError]
    by (simp add: echo_lib_def)
  then have c: "\<not> isl (init echo_lib Map.empty [''OPENAI_API_KEY'' \<mapsto> ''sk-test''])" by auto
  from a b c show ?thesis by simp
qed

section \<open>Configuration before environment\<close>




section \<open>What the methods return\<close>

text \<open>
  Claim C5 says that every method converts a result that is not a string to its string
  representation, so that every method always returns a string. Only
  \<open>get_molecular_weight\<close> converts; the other methods return what the tool returned. A
  run against a library whose tools answer with a float: \<open>query_molecule_cas\<close> returns
  the float.
\<close>

theorem always_string_counterexample:
  "\<not> isl (init float_lib Map.empty Map.empty) \<and>
   query_molecule_cas float_lib (projr (init float_lib Map.empty Map.empty)) ''aspirin'' =
     Inr (PFloat (46069 / 1000)) \<and>
   \<not> is_str (PFloat (46069 / 1000))"
proof -
  let ?r = "init float_lib Map.empty Map.empty"
  have ok: "?r = Inr (projr ?r)" by (rule float_init)
  have i: "\<not> isl ?r" by (subst ok) simp
  have h: "query2cas_tool (projr ?r) = PObj ''Query2CAS'' []"
    by (rule init_plain [OF ok])
  have m: "query_molecule_cas float_lib (projr ?r) ''aspirin'' = Inr (PFloat (46069 / 1000))"
    unfolding query_molecule_cas_def h by (simp add: call_run_def float_lib_def)
  from i m show ?thesis by simp
qed

text \<open>
  Claim C5 as amended. After construction, \<open>get_molecular_weight\<close> returns a string
  whenever it returns (a result that is not a string is converted with \<open>str\<close>). The
  four gated methods return their fixed string when their handle is absent and otherwise
  the result of the tool's run, unchanged. The eleven remaining methods return the result
  of their tool's run, unchanged: a string only if the tool returned one.
\<close>

theorem method_results:
  assumes "init lib config environ = Inr self"
  shows "(get_molecular_weight lib self x = Inr v \<longrightarrow> is_str v) \<and>
         query_molecule_cas lib self x = lib_run lib (query2cas_tool self) x \<and>
         convert_name_to_smiles lib self x = lib_run lib (query2smiles_tool self) x \<and>
         convert_smiles_to_name lib self x = lib_run lib (smiles2name_tool self) x \<and>
         get_functional_groups lib self x = lib_run lib (func_groups_tool self) x \<and>
         check_molecule_similarity lib self x y =
           lib_run lib (mol_similarity_tool self) (x @ '' '' @ y) \<and>
         check_patent lib self x = lib_run lib (patent_check_tool self) x \<and>
         check_explosive lib self x = lib_run lib (explosive_check_tool self) x \<and>
         check_controlled_chemical lib self x = lib_run lib (control_chem_check_tool self) x \<and>
         check_similar_controlled_chemicals lib self x =
           lib_run lib (similar_control_chem_check_tool self) x \<and>
         get_safety_summary lib self x = lib_run lib (safety_summary_tool self) x \<and>
         search_scholarly_literature lib self x = lib_run lib (scholar_tool self) x \<and>
         web_search_chemical lib self x =
           (if web_search_tool self = PNone then Inr unavailable_web
            else lib_run lib (web_search_tool self) x) \<and>
         get_molecule_price lib self x =
           (if molecule_price_tool self = PNone then Inr unavailable_price
            else lib_run lib (molecule_price_tool self) x) \<and>
         predict_reaction lib self x =
           (if rxn_predict_tool self = PNone then Inr unavailable_predict
            else lib_run lib (rxn_predict_tool self) x) \<and>
         retrosynthesis_planning lib self x =
           (if rxn_retro_tool self = PNone then Inr unavailable_retro
            else lib_run lib (rxn_retro_tool self) x)"
proof -
  have weight: "get_molecular_weight lib self x = Inr v \<longrightarrow> is_str v"
  proof
    assume "get_molecular_weight lib self x = Inr v"
    then obtain r where "v = (if \<not> is_str r then PStr (py_str lib r) else r)"
      by (auto simp: get_molecular_weight_def bind_res_Inr)
    then show "is_str v" by (cases "is_str r") simp_all
  qed
  have plain:
    "query_molecule_cas lib self x = lib_run lib (query2cas_tool self) x"
    "convert_name_to_smiles lib self x = lib_run lib (query2smiles_tool self) x"
    "convert_smiles_to_name lib self x = lib_run lib (smiles2name_tool self) x"
    "get_functional_groups lib self x = lib_run lib (func_groups_tool self) x"
    "check_molecule_similarity lib self x y = lib_run lib (mol_similarity_tool self) (x @ '' '' @ y)"
    "check_patent lib self x = lib_run lib (patent_check_tool self) x"
    "check_explosive lib self x = lib_run lib (explosive_check_tool self) x"
    "check_controlled_chemical lib self x = lib_run lib (control_chem_check_tool self) x"
    "check_similar_controlled_chemicals lib self x =
       lib_run lib (similar_control_chem_check_tool self) x"
    "get_safety_summary lib self x = lib_run lib (safety_summary_tool self) x"
    "search_scholarly_literature lib self x = lib_run lib (scholar_tool self) x"
    by (simp_all add: query_molecule_cas_def convert_name_to_smiles_def convert_smiles_to_name_def
          get_functional_groups_def check_molecule_similarity_def check_patent_def
          check_explosive_def check_controlled_chemical_def check_similar_controlled_chemicals_def
          get_safety_summary_def search_scholarly_literature_def call_run_def
          init_plain [OF assms])
  have gated:
    "web_search_chemical lib self x =
       (if web_search_tool self = PNone then Inr unavailable_web
        else lib_run lib (web_search_tool self) x)"
    "get_molecule_price lib self x =
       (if molecule_price_tool self = PNone then Inr unavailable_price
        else lib_run lib (molecule_price_tool self) x)"
    "predict_reaction lib self x =
       (if rxn_predict_tool self = PNone then Inr unavailable_predict
        else lib_run lib (rxn_predict_tool self) x)"
    "retrosynthesis_planning lib self x =
       (if rxn_retro_tool self = PNone then Inr unavailable_retro
        else lib_run lib (rxn_retro_tool self) x)"
    by (simp_all add: web_search_chemical_def get_molecule_price_def predict_reaction_def
          retrosynthesis_planning_def call_run_def init_web [OF assms] init_price [OF assms]
          init_predict [OF assms] init_retro [OF assms])
  from weight plain gated show ?thesis by blast
qed

text \<open>
  A run against the float library with a serp key: the weight comes back as a string, the
  CAS number and the web search as the float, the price as the fixed string.
\<close>

theorem method_results_witness:
  "\<not> isl (init float_lib Map.empty [''SERP_API_KEY'' \<mapsto> ''serp-key'']) \<and>
   get_molecular_weight float_lib
     (projr (init float_lib Map.empty [''SERP_API_KEY'' \<mapsto> ''serp-key''])) ''CCO'' =
     Inr (PStr ''46.069'') \<and>
   is_str (PStr ''46.069'') \<and>
   query_molecule_cas float_lib
     (projr (init float_lib Map.empty [''SERP_API_KEY'' \<mapsto> ''serp-key''])) ''CCO'' =
     Inr (PFloat (46069 / 1000)) \<and>
   web_search_chemical float_lib
     (projr (init float_lib Map.empty [''SERP_API_KEY'' \<mapsto> ''serp-key''])) ''CCO'' =
     Inr (PFloat (46069 / 1000)) \<and>
   get_molecule_price float_lib
     (projr (init float_lib Map.empty [''SERP_API_KEY'' \<mapsto> ''serp-key''])) ''CCO'' =
     Inr unavailable_price"
proof -
  let ?r = "init float_lib Map.empty [''SERP_API_KEY'' \<mapsto> ''serp-key'']"
  have ok: "?r = Inr (projr ?r)" by (rule float_init)
  have i: "\<not> isl ?r" by (subst ok) simp
  have run: "\<And>h x. lib_run float_lib h x = Inr (PFloat (46069 / 1000))"
    by (simp add: float_lib_def)
  have s: "py_str float_lib (PFloat (46069 / 1000)) = ''46.069''"
    by (simp add: py_str_def float_lib_def)
  have hw: "smiles2weight_tool (projr ?r) = PObj ''SMILES2Weight'' []"
    by (rule init_plain [OF ok])
  have w: "get_molecular_weight float_lib (projr ?r) ''CCO'' = Inr (PStr ''46.069'')"
    unfolding get_molecular_weight_def hw by (simp add: call_run_def run s bind_res_def)
  have web: "web_search_tool (projr ?r) \<noteq> PNone"
    by (simp add: init_web [OF ok] py_or_def dict_get_def getenv_def)
  have price: "molecule_price_tool (projr ?r) = PNone"
    by (simp add: init_price [OF ok] py_or_def dict_get_def getenv_def)
  from method_results [OF ok, of "''CCO''" "PStr ''46.069''"] i w web price run
  show ?thesis by simp
qed

end
